theory Spec2Isabelle
  imports Main "HOL-Library.Sublist"
begin

section \<open>WhatsApp gateway (server.js): data model\<close>

text \<open>
  The gateway keeps four module-level variables (server.js lines 10-13) and answers every
  request with \<open>res.json(...)\<close> or \<open>res.status(n).json(...)\<close>. JavaScript runs each
  synchronous stretch of a handler to completion, so a handler is a function from the
  variables to a response, the external calls it made, and the variables afterwards.
\<close>

subsection \<open>JSON bodies and responses\<close>

datatype json = JNull | JBool bool | JString string | JObject "(string \<times> json) list"

text \<open>A response is the HTTP status code with the JSON body; \<open>res.json\<close> answers 200.\<close>

type_synonym response = "nat \<times> json"

definition res_json :: "json \<Rightarrow> response" where
  "res_json body = (200, body)"

definition res_status_json :: "nat \<Rightarrow> json \<Rightarrow> response" where
  "res_status_json code body = (code, body)"

fun field :: "string \<Rightarrow> response \<Rightarrow> json option" where
  "field k (code, JObject kvs) = map_of kvs k"
| "field k (code, other) = None"

definition http :: "response \<Rightarrow> nat" where
  "http r = fst r"

subsection \<open>The module-level variables\<close>

text \<open>
  \<open>let client;\<close> starts as \<open>undefined\<close>, is assigned a \<open>Client\<close> object by
  \<open>initializeClient\<close> and \<open>null\<close> by restart and logout. The code never compares two
  client objects, so a handle carries no identity.
\<close>

datatype client_val = Undefined | Null | Handle

text \<open>\<open>if (client)\<close>: only an object is truthy.\<close>

fun truthy :: "client_val \<Rightarrow> bool" where
  "truthy Handle = True"
| "truthy Undefined = False"
| "truthy Null = False"

record session =
  client :: client_val
  qrCodeData :: "string option"
  isReady :: bool
  isInitializing :: bool

definition initial :: session where
  "initial = \<lparr> client = Undefined, qrCodeData = None, isReady = False, isInitializing = False \<rparr>"

subsection \<open>External calls and their outcomes\<close>

text \<open>
  What a handler asks of its collaborators, in the order it asks. An awaited call either
  returns a value (\<open>Inr\<close>) or rejects with an \<open>Error\<close> whose \<open>message\<close> is the string
  (\<open>Inl\<close>).
\<close>

type_synonym 'a outcome = "string + 'a"

datatype payload = Text string | Media string string

datatype effect =
    ConsoleLog "string list"
  | ConsoleError "string list"
  | NewClient
  | ClientInitialize
  | ClientDestroy
  | ClientLogout
  | QrcodeGenerate string
  | IsRegisteredUser string
  | FromUrl string string
  | SendMessage string payload
  | SetTimeout nat
  | WebhookPost string string string

section \<open>Phone formatting (lines 246-257, repeated verbatim at 309-320)\<close>

text \<open>\<open>/[^0-9]/g\<close> removes every character that is not one of the ten ASCII digits.\<close>

definition is_digit :: "char \<Rightarrow> bool" where
  "is_digit c = (c \<in> set ''0123456789'')"

definition startsWith :: "string \<Rightarrow> string \<Rightarrow> bool" where
  "startsWith s p = (take (length p) s = p)"

definition substring :: "string \<Rightarrow> nat \<Rightarrow> string" where
  "substring s n = drop n s"

definition formattedPhone :: "string \<Rightarrow> string" where
  "formattedPhone phone =
     (let f0 = filter is_digit phone;
          f1 = (if startsWith f0 ''0'' then ''62'' @ substring f0 1 else f0);
          f2 = (if \<not> startsWith f1 ''62'' then ''62'' @ f1 else f1)
      in f2)"

definition chatId :: "string \<Rightarrow> string" where
  "chatId phone = formattedPhone phone @ ''@c.us''"

text \<open>
  The reference algorithm in the specification's words: strip the non-digits; a leading
  \<open>0\<close> is replaced by \<open>62\<close>; otherwise \<open>62\<close> is prepended unless already there; the
  suffix is appended.
\<close>

definition normalize_spec :: "string \<Rightarrow> string" where
  "normalize_spec raw =
     (let d = filter is_digit raw
      in (if startsWith d ''0'' then ''62'' @ drop 1 d
          else if \<not> startsWith d ''62'' then ''62'' @ d
          else d) @ ''@c.us'')"

section \<open>Session lifecycle\<close>

subsection \<open>initializeClient (lines 16-110)\<close>

text \<open>
  The two guards return early; otherwise the three flags are reset, a \<open>Client\<close> is
  constructed and assigned, the six event callbacks are registered (registration has no
  effect until an event fires) and \<open>client.initialize()\<close> is called.
\<close>

definition initializeClient :: "session \<Rightarrow> effect list \<times> session" where
  "initializeClient s =
     (if isInitializing s then ([ConsoleLog [''Client is already initializing...'']], s)
      else if truthy (client s) \<and> isReady s
        then ([ConsoleLog [''Client is already initialized and ready'']], s)
      else ([NewClient, ClientInitialize],
            s\<lparr> isInitializing := True, qrCodeData := None, isReady := False,
               client := Handle \<rparr>))"

subsection \<open>Event callbacks (lines 54-107)\<close>

datatype event =
    Qr string "unit outcome"
  | Ready
  | Authenticated
  | AuthFailure string
  | Disconnected string
  | Message string string string "unit outcome"

text \<open>
  The callbacks close over the module-level variables, not over the client that emits,
  and are never unregistered. In the qr callback \<open>qrcode.generate\<close> (line 57) runs
  before the two writes and inside no \<open>try\<close>: \<open>Qr qr rendered\<close> carries its outcome, and
  when it throws (an artifact too long for a QR code) the callback ends there and writes
  nothing. \<open>Message from body timestamp post\<close> carries the outcome of the webhook post,
  whose failure is caught and written to the console.
\<close>

fun on_event :: "event \<Rightarrow> session \<Rightarrow> effect list \<times> session" where
  "on_event (Qr qr rendered) s =
     ([ConsoleLog [''QR Code received, scan please!''], QrcodeGenerate qr],
      (case rendered of
         Inl err \<Rightarrow> s
       | Inr _ \<Rightarrow> s\<lparr> qrCodeData := Some qr, isInitializing := False \<rparr>))"
| "on_event Ready s =
     ([ConsoleLog [''WhatsApp Client is ready!'']],
      s\<lparr> isReady := True, qrCodeData := None, isInitializing := False \<rparr>)"
| "on_event Authenticated s =
     ([ConsoleLog [''WhatsApp authenticated!'']], s\<lparr> qrCodeData := None \<rparr>)"
| "on_event (AuthFailure msg) s =
     ([ConsoleError [''Authentication failure:'', msg]],
      s\<lparr> isReady := False, qrCodeData := None, isInitializing := False \<rparr>)"
| "on_event (Disconnected reason) s =
     ([ConsoleLog [''WhatsApp disconnected:'', reason]],
      s\<lparr> isReady := False, qrCodeData := None, isInitializing := False \<rparr>)"
| "on_event (Message from body timestamp post) s =
     ([ConsoleLog [''Message received:'', body], WebhookPost from body timestamp]
        @ (case post of Inl err \<Rightarrow> [ConsoleError [''Webhook error:'', err]] | Inr _ \<Rightarrow> []),
      s)"

section \<open>API routes\<close>

subsection \<open>POST /api/start (lines 115-142)\<close>

definition api_start :: "session \<Rightarrow> response \<times> effect list \<times> session" where
  "api_start s =
     (if isReady s then
        (res_json (JObject [(''status'', JString ''info''),
                            (''message'', JString ''WhatsApp client already connected'')]), [], s)
      else if isInitializing s then
        (res_json (JObject [(''status'', JString ''info''),
                            (''message'', JString ''WhatsApp client is initializing...'')]), [], s)
      else if \<not> truthy (client s) then
        (case initializeClient s of (effs, s') \<Rightarrow>
           (res_json (JObject [(''status'', JString ''success''),
                               (''message'', JString
                                  ''WhatsApp client started. Please check /api/qr for QR code'')]),
            effs, s'))
      else
        (res_json (JObject [(''status'', JString ''info''),
                            (''message'', JString ''WhatsApp client already exists'')]), [], s))"

subsection \<open>POST /api/restart (lines 145-176)\<close>

text \<open>
  \<open>destroyed\<close> is the outcome of \<open>await client.destroy()\<close>, consulted only when there is
  a client. Nothing is written before the await and everything after it is written
  unconditionally, so whatever ran in between does not show in the result. The callback
  given to \<open>setTimeout\<close> is the step \<open>Timer\<close> below. Nothing in the outer \<open>try\<close> can
  throw once the inner \<open>catch\<close> has taken the failure of \<open>destroy\<close>.
\<close>

definition api_restart :: "unit outcome \<Rightarrow> session \<Rightarrow> response \<times> effect list \<times> session" where
  "api_restart destroyed s =
     (let (effs, s1) =
            (if truthy (client s) then
               (ClientDestroy #
                  (case destroyed of
                     Inl err \<Rightarrow> [ConsoleLog [''Error destroying client:'', err]]
                   | Inr _ \<Rightarrow> []),
                s\<lparr> client := Null \<rparr>)
             else ([], s));
          s2 = s1\<lparr> isReady := False, qrCodeData := None, isInitializing := False \<rparr>
      in (res_json (JObject [(''status'', JString ''success''),
                             (''message'', JString
                                ''WhatsApp client restarting. Check /api/qr in a few seconds'')]),
          effs @ [SetTimeout 1000], s2))"

subsection \<open>GET /api/qr (lines 179-209)\<close>

text \<open>\<open>!qrCodeData\<close> and \<open>if (qrCodeData)\<close>: \<open>null\<close> and the empty string are falsy.\<close>

fun falsy :: "string option \<Rightarrow> bool" where
  "falsy None = True"
| "falsy (Some v) = (v = [])"

definition json_of :: "string option \<Rightarrow> json" where
  "json_of v = (case v of None \<Rightarrow> JNull | Some x \<Rightarrow> JString x)"

definition api_qr :: "session \<Rightarrow> response \<times> effect list \<times> session" where
  "api_qr s =
     (if isReady s then
        (res_json (JObject [(''status'', JString ''ready''),
                            (''message'', JString ''WhatsApp already connected''),
                            (''qr'', JNull)]), [], s)
      else if isInitializing s \<and> falsy (qrCodeData s) then
        (res_json (JObject [(''status'', JString ''initializing''),
                            (''message'', JString ''Client is initializing, please wait...''),
                            (''qr'', JNull)]), [], s)
      else if \<not> falsy (qrCodeData s) then
        (res_json (JObject [(''status'', JString ''success''),
                            (''qr'', json_of (qrCodeData s)),
                            (''message'', JString ''Scan QR code with WhatsApp'')]), [], s)
      else
        (res_json (JObject [(''status'', JString ''waiting''),
                            (''message'', JString
                               ''Waiting for QR code. Try /api/start or /api/restart''),
                            (''qr'', JNull)]), [], s))"

subsection \<open>GET /api/status (lines 212-225)\<close>

text \<open>\<open>client !== null\<close> is true of an object and of \<open>undefined\<close>.\<close>

definition api_status :: "session \<Rightarrow> response \<times> effect list \<times> session" where
  "api_status s =
     (res_json (JObject
        [(''status'', JString (if isReady s then ''ready''
                               else if isInitializing s then ''initializing'' else ''not_ready'')),
         (''isReady'', JBool (isReady s)),
         (''isInitializing'', JBool (isInitializing s)),
         (''hasQR'', JBool (qrCodeData s \<noteq> None)),
         (''hasClient'', JBool (client s \<noteq> Null)),
         (''message'', JString (if isReady s then ''WhatsApp is connected''
                                else if isInitializing s then ''WhatsApp is initializing...''
                                else ''WhatsApp is not connected''))]),
      [], s)"

subsection \<open>The send routes (lines 228-348)\<close>

text \<open>
  The collaborators of the send routes: \<open>client.isRegisteredUser\<close>,
  \<open>client.sendMessage\<close> (its value is \<open>result.id._serialized\<close>) and
  \<open>MessageMedia.fromUrl\<close> (its value stands for the media object). A call on a
  \<open>client\<close> that is \<open>null\<close> or \<open>undefined\<close> is a \<open>TypeError\<close>, which the route's
  \<open>catch\<close> answers like any other failure (with the message Node 20 gives, the runtime
  the repository's Dockerfile names). A route is modelled as reading the variables once:
  a restart or logout that completes while a send waits for a collaborator is not
  represented.
\<close>

record client_api =
  isRegisteredUser :: "string \<Rightarrow> bool outcome"
  sendMessage :: "string \<Rightarrow> payload \<Rightarrow> string outcome"
  fromUrl :: "string \<Rightarrow> string \<Rightarrow> string outcome"

definition type_error :: "client_val \<Rightarrow> string \<Rightarrow> string" where
  "type_error c prop =
     ''Cannot read properties of '' @ (if c = Null then ''null'' else ''undefined'')
       @ '' (reading '' @ [CHR 0x27] @ prop @ [CHR 0x27] @ '')''"

definition error_500 :: "string \<Rightarrow> response" where
  "error_500 msg =
     res_status_json 500 (JObject [(''status'', JString ''error''), (''message'', JString msg)])"

text \<open>
  \<open>req.body\<close>, an object of which the routes destructure the fields they need:
  send-message reads \<open>phone\<close> and \<open>message\<close>, send-media reads \<open>phone\<close>, \<open>mediaUrl\<close>,
  \<open>caption\<close> and \<open>filename\<close>. A field is a string, or absent (\<open>None\<close>).
\<close>

record req_body =
  phone :: "string option"
  message :: "string option"
  mediaUrl :: "string option"
  caption :: "string option"
  filename :: "string option"

text \<open>
  \<open>x || d\<close> on an optional string. Past the guard \<open>!phone || !message\<close> a field is a
  non-empty string, and \<open>or_default v []\<close> is that string.
\<close>

definition or_default :: "string option \<Rightarrow> string \<Rightarrow> string" where
  "or_default v d = (case v of None \<Rightarrow> d | Some x \<Rightarrow> if x = [] then d else x)"

definition api_send_message ::
  "client_api \<Rightarrow> req_body \<Rightarrow> session \<Rightarrow> response \<times> effect list \<times> session" where
  "api_send_message ext body s =
     (if \<not> isReady s then
        (res_status_json 400 (JObject [(''status'', JString ''error''),
                                       (''message'', JString ''WhatsApp is not ready'')]), [], s)
      else if falsy (phone body) \<or> falsy (message body) then
        (res_status_json 400 (JObject [(''status'', JString ''error''),
                                       (''message'', JString ''Phone and message are required'')]),
         [], s)
      else
        (let p = or_default (phone body) [];
             m = or_default (message body) [];
             to = chatId p
         in if \<not> truthy (client s) then
              (let err = type_error (client s) ''isRegisteredUser''
               in (error_500 err, [ConsoleError [''Send message error:'', err]], s))
            else
              (case isRegisteredUser ext to of
                 Inl err \<Rightarrow>
                   (error_500 err,
                    [IsRegisteredUser to, ConsoleError [''Send message error:'', err]], s)
               | Inr False \<Rightarrow>
                   (res_status_json 400
                      (JObject [(''status'', JString ''error''),
                                (''message'', JString
                                   ''Phone number is not registered on WhatsApp'')]),
                    [IsRegisteredUser to], s)
               | Inr True \<Rightarrow>
                   (case sendMessage ext to (Text m) of
                      Inl err \<Rightarrow>
                        (error_500 err,
                         [IsRegisteredUser to, SendMessage to (Text m),
                          ConsoleError [''Send message error:'', err]], s)
                    | Inr msgid \<Rightarrow>
                        (res_json
                           (JObject [(''status'', JString ''success''),
                                     (''message'', JString ''Message sent successfully''),
                                     (''data'', JObject [(''phone'', JString (formattedPhone p)),
                                                         (''messageId'', JString msgid)])]),
                         [IsRegisteredUser to, SendMessage to (Text m)], s)))))"

definition api_send_media ::
  "client_api \<Rightarrow> req_body \<Rightarrow> session \<Rightarrow> response \<times> effect list \<times> session" where
  "api_send_media ext body s =
     (if \<not> isReady s then
        (res_status_json 400 (JObject [(''status'', JString ''error''),
                                       (''message'', JString ''WhatsApp is not ready'')]), [], s)
      else if falsy (phone body) \<or> falsy (mediaUrl body) then
        (res_status_json 400 (JObject [(''status'', JString ''error''),
                                       (''message'', JString ''Phone and mediaUrl are required'')]),
         [], s)
      else
        (let p = or_default (phone body) [];
             url = or_default (mediaUrl body) [];
             to = chatId p;
             name = or_default (filename body) ''file'';
             cap = or_default (caption body) []
         in case fromUrl ext url name of
              Inl err \<Rightarrow>
                (error_500 err, [FromUrl url name, ConsoleError [''Send media error:'', err]], s)
            | Inr media \<Rightarrow>
                if \<not> truthy (client s) then
                  (let err = type_error (client s) ''sendMessage''
                   in (error_500 err,
                       [FromUrl url name, ConsoleError [''Send media error:'', err]], s))
                else
                  (case sendMessage ext to (Media media cap) of
                     Inl err \<Rightarrow>
                       (error_500 err,
                        [FromUrl url name, SendMessage to (Media media cap),
                         ConsoleError [''Send media error:'', err]], s)
                   | Inr msgid \<Rightarrow>
                       (res_json
                          (JObject [(''status'', JString ''success''),
                                    (''message'', JString ''Media sent successfully''),
                                    (''data'', JObject [(''phone'', JString (formattedPhone p)),
                                                        (''messageId'', JString msgid)])]),
                        [FromUrl url name, SendMessage to (Media media cap)], s))))"

subsection \<open>POST /api/logout (lines 351-377)\<close>

text \<open>
  \<open>loggedOut\<close> and \<open>destroyed\<close> are the outcomes of the two awaited calls. Neither has
  a \<open>catch\<close> of its own: a failure of either leaves the \<open>try\<close> before any variable is
  written and is answered by the route's \<open>catch\<close>, which writes nothing to the console.
\<close>

definition api_logout ::
  "unit outcome \<Rightarrow> unit outcome \<Rightarrow> session \<Rightarrow> response \<times> effect list \<times> session" where
  "api_logout loggedOut destroyed s =
     (if truthy (client s) then
        (case loggedOut of
           Inl err \<Rightarrow> (error_500 err, [ClientLogout], s)
         | Inr _ \<Rightarrow>
             (case destroyed of
                Inl err \<Rightarrow> (error_500 err, [ClientLogout, ClientDestroy], s)
              | Inr _ \<Rightarrow>
                  (res_json (JObject [(''status'', JString ''success''),
                                      (''message'', JString
                                         ''Logged out successfully. Use /api/restart to reconnect'')]),
                   [ClientLogout, ClientDestroy],
                   s\<lparr> client := Null, isReady := False, qrCodeData := None,
                      isInitializing := False \<rparr>)))
      else
        (res_json (JObject [(''status'', JString ''info''),
                            (''message'', JString ''No active session'')]), [], s))"

section \<open>Runs of the server\<close>

text \<open>
  Loading the module ends with \<open>initializeClient()\<close> (line 395); requests, events and
  timers are served only afterwards. A step is one request, one event, or the firing of
  a restart's timer, and carries what the outside world decided for it. A run keeps the
  external calls and the variables; what a request answers is stated on its route. The
  timer step is allowed at any time, which only adds runs.
\<close>

definition boot :: session where
  "boot = snd (initializeClient initial)"

datatype step =
    Req_start
  | Req_restart "unit outcome"
  | Timer
  | Req_qr
  | Req_status
  | Req_send_message client_api req_body
  | Req_send_media client_api req_body
  | Req_logout "unit outcome" "unit outcome"
  | Event event

fun exec :: "step \<Rightarrow> session \<Rightarrow> effect list \<times> session" where
  "exec Req_start s = snd (api_start s)"
| "exec (Req_restart d) s = snd (api_restart d s)"
| "exec Timer s = initializeClient s"
| "exec Req_qr s = snd (api_qr s)"
| "exec Req_status s = snd (api_status s)"
| "exec (Req_send_message ext b) s = snd (api_send_message ext b s)"
| "exec (Req_send_media ext b) s = snd (api_send_media ext b s)"
| "exec (Req_logout l d) s = snd (api_logout l d s)"
| "exec (Event e) s = on_event e s"

fun run :: "step list \<Rightarrow> session \<Rightarrow> effect list \<times> session" where
  "run [] s = ([], s)"
| "run (st # sts) s =
     (case exec st s of (e1, s1) \<Rightarrow> (case run sts s1 of (e2, s2) \<Rightarrow> (e1 @ e2, s2)))"

definition state_after :: "step list \<Rightarrow> session \<Rightarrow> session" where
  "state_after sts s = snd (run sts s)"

definition constructed :: "effect list \<Rightarrow> nat" where
  "constructed effs = length (filter (\<lambda>e. e = NewClient) effs)"

subsection \<open>Classifying steps and effects\<close>

text \<open>A call of \<open>initializeClient\<close>: by the start route, or by a restart's timer.\<close>

fun start_or_init :: "step \<Rightarrow> bool" where
  "start_or_init Req_start = True"
| "start_or_init Timer = True"
| "start_or_init other = False"

text \<open>
  Steps that write none of the four variables whatever the flags are, given the value
  \<open>c\<close> of \<open>client\<close>: the reads, the sends, an inbound message, a qr event whose rendering
  throws, a logout that fails or finds no client, and a start that finds a client.
\<close>

fun writes_nothing :: "client_val \<Rightarrow> step \<Rightarrow> bool" where
  "writes_nothing c Req_start = truthy c"
| "writes_nothing c (Req_restart d) = False"
| "writes_nothing c Timer = False"
| "writes_nothing c Req_qr = True"
| "writes_nothing c Req_status = True"
| "writes_nothing c (Req_send_message ext b) = True"
| "writes_nothing c (Req_send_media ext b) = True"
| "writes_nothing c (Req_logout (Inr u) (Inr v)) = (\<not> truthy c)"
| "writes_nothing c (Req_logout (Inr u) (Inl err)) = True"
| "writes_nothing c (Req_logout (Inl err) d) = True"
| "writes_nothing c (Event (Qr qr (Inl err))) = True"
| "writes_nothing c (Event (Qr qr (Inr u))) = False"
| "writes_nothing c (Event (Message from body timestamp post)) = True"
| "writes_nothing c (Event Ready) = False"
| "writes_nothing c (Event Authenticated) = False"
| "writes_nothing c (Event (AuthFailure msg)) = False"
| "writes_nothing c (Event (Disconnected reason)) = False"

text \<open>
  Every step but a start and the timer itself: the steps that cannot call
  \<open>initializeClient\<close>. Events are included.
\<close>

fun settling :: "step \<Rightarrow> bool" where
  "settling Req_start = False"
| "settling Timer = False"
| "settling other = True"

text \<open>The one step that stores a QR artifact, and the one that sets \<open>isReady\<close>.\<close>

fun stores_artifact :: "step \<Rightarrow> bool" where
  "stores_artifact (Event (Qr qr (Inr u))) = True"
| "stores_artifact other = False"

fun sets_ready :: "step \<Rightarrow> bool" where
  "sets_ready (Event Ready) = True"
| "sets_ready other = False"

fun is_send :: "effect \<Rightarrow> bool" where
  "is_send (SendMessage to pl) = True"
| "is_send other = False"

fun is_registration_check :: "effect \<Rightarrow> bool" where
  "is_registration_check (IsRegisteredUser to) = True"
| "is_registration_check other = False"

subsection \<open>Concrete sessions, bodies and collaborators\<close>

definition ready_session :: session where
  "ready_session = state_after [Event Ready] boot"

definition idle_session :: session where
  "idle_session = state_after [Req_logout (Inr ()) (Inr ())] boot"

definition text_body :: req_body where
  "text_body = \<lparr> phone = Some ''081111'', message = Some ''hi'', mediaUrl = None,
                 caption = None, filename = None \<rparr>"

definition media_body :: req_body where
  "media_body = \<lparr> phone = Some ''081111'', message = None,
                  mediaUrl = Some ''http://files/a.png'', caption = None, filename = None \<rparr>"

definition empty_body :: req_body where
  "empty_body = \<lparr> phone = None, message = None, mediaUrl = None, caption = None,
                  filename = None \<rparr>"

text \<open>A collaborator that knows no destination, fetches every URL and sends everything.\<close>

definition unregistered_api :: client_api where
  "unregistered_api =
     \<lparr> isRegisteredUser = (\<lambda>to. Inr False),
       sendMessage = (\<lambda>to pl. Inr ''true_62@c.us_3EB0''),
       fromUrl = (\<lambda>url name. Inr name) \<rparr>"

text \<open>The same collaborator when the media URL answers 404.\<close>

definition failing_fetch_api :: client_api where
  "failing_fetch_api =
     \<lparr> isRegisteredUser = (\<lambda>to. Inr False),
       sendMessage = (\<lambda>to pl. Inr ''true_62@c.us_3EB0''),
       fromUrl = (\<lambda>url name. Inl ''Request failed with status code 404'') \<rparr>"

section \<open>Properties of the phone formatting\<close>

lemma startsWith_62_cons: "startsWith (CHR ''6'' # CHR ''2'' # s) ''62''"
  by (simp add: startsWith_def)

lemma formattedPhone_startsWith: "startsWith (formattedPhone x) ''62''"
  by (simp add: formattedPhone_def Let_def startsWith_62_cons)

lemma is_digit_6: "is_digit CHR ''6''" by (simp add: is_digit_def)
lemma is_digit_2: "is_digit CHR ''2''" by (simp add: is_digit_def)

lemma filter_drop_filter: "filter P (drop n (filter P xs)) = drop n (filter P xs)"
  by (rule filter_True) (auto dest: in_set_dropD)

lemma formattedPhone_digits: "filter is_digit (formattedPhone x) = formattedPhone x"
  by (simp add: formattedPhone_def Let_def substring_def is_digit_6 is_digit_2 filter_drop_filter)

lemma startsWith_0_not_62: "startsWith s ''62'' \<Longrightarrow> \<not> startsWith s ''0''"
  by (cases s) (auto simp: startsWith_def)

lemma formattedPhone_idem: "formattedPhone (formattedPhone x) = formattedPhone x"
proof -
  have a: "startsWith (formattedPhone x) ''62''" by (rule formattedPhone_startsWith)
  have b: "\<not> startsWith (formattedPhone x) ''0''" using a by (rule startsWith_0_not_62)
  have "formattedPhone (formattedPhone x) =
        (let f0 = filter is_digit (formattedPhone x);
          f1 = (if startsWith f0 ''0'' then ''62'' @ substring f0 1 else f0);
          f2 = (if \<not> startsWith f1 ''62'' then ''62'' @ f1 else f1)
      in f2)" by (simp only: formattedPhone_def[of "formattedPhone x"])
  also have "\<dots> = formattedPhone x"
    using a b by (simp only: formattedPhone_digits Let_def if_False if_True not_True_eq_False not_not)
  finally show ?thesis .
qed

lemma chatId_spec: "chatId raw = normalize_spec raw"
  by (simp add: chatId_def normalize_spec_def formattedPhone_def Let_def substring_def startsWith_62_cons)

lemma chatId_examples:
  "chatId ''081234567890'' = ''6281234567890@c.us''"
  "chatId ''6281234567890'' = ''6281234567890@c.us''"
  "chatId ''81234567890'' = ''6281234567890@c.us''"
  by (simp_all add: chatId_def formattedPhone_def Let_def substring_def startsWith_def is_digit_def)

lemma or_default_Some: "x \<noteq> [] \<Longrightarrow> or_default (Some x) d = x"
  by (simp add: or_default_def)

lemma send_message_destination:
  assumes "isReady s" "truthy (client s)" "phone b = Some p" "p \<noteq> []" "message b = Some m" "m \<noteq> []"
  shows "hd (fst (snd (api_send_message ext b s))) = IsRegisteredUser (chatId p)"
  using assms
  by (simp add: api_send_message_def Let_def or_default_Some split: sum.splits bool.splits)

lemma send_media_destination:
  assumes "isReady s" "truthy (client s)" "phone b = Some p" "p \<noteq> []" "mediaUrl b = Some u" "u \<noteq> []"
    and "fromUrl ext u (or_default (filename b) ''file'') = Inr media"
  shows "fst (snd (api_send_media ext b s)) ! 1
           = SendMessage (chatId p) (Media media (or_default (caption b) []))"
  using assms
  by (simp add: api_send_media_def Let_def or_default_Some split: sum.splits bool.splits)

text \<open>
  C3. The formatting of both send routes is the reference algorithm on every input
  string: non-digits stripped, a leading \<open>0\<close> replaced by \<open>62\<close>, otherwise \<open>62\<close>
  prepended unless already there, \<open>@c.us\<close> appended; the three examples of the
  specification come out as stated. The last two conjuncts tie the function to the
  routes: the destination send-message asks the client about, and the one send-media
  sends to, is the reference normalization of the request's phone.
\<close>

theorem phone_formatting_matches_reference:
  "chatId raw = normalize_spec raw
   \<and> chatId ''081234567890'' = ''6281234567890@c.us''
   \<and> chatId ''6281234567890'' = ''6281234567890@c.us''
   \<and> chatId ''81234567890'' = ''6281234567890@c.us''
   \<and> (isReady s \<and> truthy (client s) \<and> phone b = Some p \<and> p \<noteq> []
        \<and> message b = Some m \<and> m \<noteq> [] \<longrightarrow>
        hd (fst (snd (api_send_message ext b s))) = IsRegisteredUser (normalize_spec p))
   \<and> (isReady s \<and> truthy (client s) \<and> phone b = Some p \<and> p \<noteq> []
        \<and> mediaUrl b = Some u \<and> u \<noteq> []
        \<and> fromUrl ext u (or_default (filename b) ''file'') = Inr media \<longrightarrow>
        fst (snd (api_send_media ext b s)) ! 1
          = SendMessage (normalize_spec p) (Media media (or_default (caption b) [])))"
proof -
  have "chatId p = normalize_spec p" by (rule chatId_spec)
  then show ?thesis
    using chatId_spec [of raw] chatId_examples send_message_destination [of s b p m ext]
      send_media_destination [of s b p u ext media]
    by simp
qed

theorem phone_formatting_matches_reference_witness:
  "isReady ready_session \<and> truthy (client ready_session)
   \<and> chatId ''+62 811-11'' = normalize_spec ''+62 811-11''
   \<and> hd (fst (snd (api_send_message unregistered_api text_body ready_session)))
         = IsRegisteredUser (normalize_spec ''081111'')
   \<and> fst (snd (api_send_media unregistered_api media_body ready_session)) ! 1
         = SendMessage (normalize_spec ''081111'') (Media ''file'' [])
   \<and> normalize_spec ''081111'' = ''6281111@c.us''"
proof -
  have r: "isReady ready_session" "truthy (client ready_session)"
    by (simp_all add: ready_session_def state_after_def boot_def initializeClient_def initial_def)
  have t: "phone text_body = Some ''081111''" "message text_body = Some ''hi''"
    by (simp_all add: text_body_def)
  have m: "phone media_body = Some ''081111''" "mediaUrl media_body = Some ''http://files/a.png''"
    "or_default (filename media_body) ''file'' = ''file''"
    "or_default (caption media_body) [] = []"
    by (simp_all add: media_body_def or_default_def)
  have f: "fromUrl unregistered_api ''http://files/a.png'' ''file'' = Inr ''file''"
    by (simp add: unregistered_api_def)
  have n: "normalize_spec ''081111'' = ''6281111@c.us''"
    by (simp add: normalize_spec_def Let_def startsWith_def is_digit_def)
  from phone_formatting_matches_reference
    [of "''+62 811-11''" ready_session text_body "''081111''" "''hi''" unregistered_api
        "''http://files/a.png''" "''file''"] r t
  have "chatId ''+62 811-11'' = normalize_spec ''+62 811-11''"
    and "hd (fst (snd (api_send_message unregistered_api text_body ready_session)))
           = IsRegisteredUser (normalize_spec ''081111'')"
    by simp_all
  moreover from phone_formatting_matches_reference
    [of "''+62 811-11''" ready_session media_body "''081111''" "''hi''" unregistered_api
        "''http://files/a.png''" "''file''"] r m f
  have "fst (snd (api_send_media unregistered_api media_body ready_session)) ! 1
         = SendMessage (normalize_spec ''081111'') (Media ''file'' [])"
    by simp
  ultimately show ?thesis using r n by simp
qed

text \<open>
  C9. Normalization is defined on every string and always ends in the suffix \<open>@c.us\<close>;
  formatting the formatted digits again changes nothing, so
  \<open>normalize (normalize_digits x) = normalize x\<close>, with \<open>formattedPhone\<close> as
  \<open>normalize_digits\<close> and \<open>chatId\<close> as \<open>normalize\<close>. The output of \<open>formattedPhone\<close> is
  all digits and starts with \<open>62\<close>; the empty input gives \<open>62@c.us\<close>.
\<close>

theorem normalization_total_idempotent:
  "suffix ''@c.us'' (chatId x)
   \<and> chatId (formattedPhone x) = chatId x
   \<and> formattedPhone (formattedPhone x) = formattedPhone x
   \<and> filter is_digit (formattedPhone x) = formattedPhone x
   \<and> startsWith (formattedPhone x) ''62''
   \<and> chatId [] = ''62@c.us''"
proof -
  have "suffix ''@c.us'' (chatId x)" unfolding chatId_def by (rule suffix_appendI) simp
  moreover have "chatId [] = ''62@c.us''"
    by (simp add: chatId_def formattedPhone_def Let_def startsWith_def)
  ultimately show ?thesis
    by (simp add: chatId_def formattedPhone_idem formattedPhone_digits formattedPhone_startsWith)
qed

theorem normalization_total_idempotent_witness:
  "chatId (formattedPhone ''(0812) 555-abc'') = ''62812555@c.us''
   \<and> chatId ''(0812) 555-abc'' = ''62812555@c.us''
   \<and> chatId ''no digits'' = ''62@c.us''"
proof -
  have a: "chatId ''(0812) 555-abc'' = ''62812555@c.us''"
    by (simp add: chatId_def formattedPhone_def Let_def substring_def startsWith_def is_digit_def)
  have b: "chatId ''no digits'' = ''62@c.us''"
    by (simp add: chatId_def formattedPhone_def Let_def substring_def startsWith_def is_digit_def)
  show ?thesis using normalization_total_idempotent [of "''(0812) 555-abc''"] a b by simp
qed

section \<open>Properties of the session lifecycle\<close>

subsection \<open>No second client while initializing\<close>

lemma initializeClient_while_initializing:
  "isInitializing s \<Longrightarrow> snd (initializeClient s) = s \<and> constructed (fst (initializeClient s)) = 0"
  by (simp add: initializeClient_def constructed_def)

lemma api_start_while_initializing:
  "isInitializing s \<Longrightarrow> snd (snd (api_start s)) = s \<and> fst (snd (api_start s)) = []
     \<and> field ''status'' (fst (api_start s)) = Some (JString ''info'')
     \<and> http (fst (api_start s)) = 200"
  by (simp add: api_start_def res_json_def http_def)

lemma constructed_append: "constructed (a @ b) = constructed a + constructed b"
  by (simp add: constructed_def)

lemma exec_start_or_init_initializing:
  assumes "isInitializing s" "start_or_init st"
  shows "snd (exec st s) = s \<and> constructed (fst (exec st s)) = 0"
proof (cases st)
  case Req_start
  then show ?thesis using assms api_start_while_initializing [of s] by (simp add: constructed_def)
next
  case Timer
  then show ?thesis using assms initializeClient_while_initializing [of s] by simp
qed (use assms in simp_all)

lemma run_while_initializing:
  "isInitializing s \<Longrightarrow> list_all start_or_init sts \<Longrightarrow>
     snd (run sts s) = s \<and> constructed (fst (run sts s)) = 0"
proof (induction sts)
  case Nil
  then show ?case by (simp add: constructed_def)
next
  case (Cons st sts)
  obtain e1 s1 where e: "exec st s = (e1, s1)" by (cases "exec st s")
  from Cons.prems have "start_or_init st" by simp
  with Cons.prems(1) e have s1: "s1 = s" and c1: "constructed e1 = 0"
    using exec_start_or_init_initializing [of s st] by simp_all
  from Cons have ih: "snd (run sts s) = s \<and> constructed (fst (run sts s)) = 0" by simp
  show ?case using e s1 c1 ih by (cases "run sts s") (simp add: constructed_append)
qed

lemma exec_start_or_init_cases:
  assumes "start_or_init st"
  shows "(snd (exec st s) = s \<and> constructed (fst (exec st s)) = 0)
       \<or> (isInitializing (snd (exec st s)) \<and> constructed (fst (exec st s)) = 1)"
proof (cases st)
  case Req_start
  then show ?thesis
    by (simp add: api_start_def initializeClient_def constructed_def split: prod.splits)
next
  case Timer
  then show ?thesis by (simp add: initializeClient_def constructed_def)
qed (use assms in simp_all)

lemma run_constructs_at_most_one:
  "list_all start_or_init sts \<Longrightarrow> constructed (fst (run sts s)) \<le> 1"
proof (induction sts arbitrary: s)
  case Nil
  then show ?case by (simp add: constructed_def)
next
  case (Cons st sts)
  obtain e1 s1 where e: "exec st s = (e1, s1)" by (cases "exec st s")
  from Cons.prems have st: "start_or_init st" and rest: "list_all start_or_init sts" by simp_all
  have run_eq: "constructed (fst (run (st # sts) s)) = constructed e1 + constructed (fst (run sts s1))"
    using e by (simp add: constructed_append split: prod.splits)
  from exec_start_or_init_cases [OF st, of s] e
  consider "s1 = s" "constructed e1 = 0" | "isInitializing s1" "constructed e1 = 1" by auto
  then show ?case
  proof cases
    case 1
    then show ?thesis using run_eq Cons.IH [OF rest, of s1] by simp
  next
    case 2
    then show ?thesis using run_eq run_while_initializing [OF 2(1) rest] by simp
  qed
qed

text \<open>
  C1. In a sequence of start requests and \<open>initializeClient\<close> calls, at most one client
  is constructed, from any state. When the sequence begins with \<open>isInitializing\<close> set,
  none is: the variables are left as they were, and a start answers 200 with status
  \<open>info\<close> and makes no external call.
\<close>

theorem start_while_initializing_constructs_nothing:
  "list_all start_or_init sts \<Longrightarrow>
     constructed (fst (run sts s)) \<le> 1
     \<and> (isInitializing s \<longrightarrow>
          state_after sts s = s
          \<and> constructed (fst (run sts s)) = 0
          \<and> snd (api_start s) = ([], s)
          \<and> field ''status'' (fst (api_start s)) = Some (JString ''info'')
          \<and> http (fst (api_start s)) = 200)"
proof -
  assume a: "list_all start_or_init sts"
  have "isInitializing s \<Longrightarrow> snd (api_start s) = ([], s)"
    using api_start_while_initializing [of s] by (simp add: prod_eq_iff)
  then show ?thesis
    using run_constructs_at_most_one [OF a, of s] run_while_initializing [OF _ a, of s]
      api_start_while_initializing [of s]
    by (auto simp: state_after_def)
qed

theorem start_while_initializing_constructs_nothing_witness:
  "list_all start_or_init [Req_start, Timer, Req_start] \<and> isInitializing boot
   \<and> state_after [Req_start, Timer, Req_start] boot = boot
   \<and> constructed (fst (run [Req_start, Timer, Req_start] boot)) = 0
   \<and> constructed (fst (run [Req_start, Timer, Req_start] initial)) \<le> 1
   \<and> field ''status'' (fst (api_start boot)) = Some (JString ''info'')"
proof -
  have l: "list_all start_or_init [Req_start, Timer, Req_start]" by simp
  have b: "isInitializing boot" by (simp add: boot_def initializeClient_def initial_def)
  from start_while_initializing_constructs_nothing [OF l, of boot] b
  have "state_after [Req_start, Timer, Req_start] boot = boot"
    and "constructed (fst (run [Req_start, Timer, Req_start] boot)) = 0"
    and "field ''status'' (fst (api_start boot)) = Some (JString ''info'')"
    by blast+
  moreover from start_while_initializing_constructs_nothing [OF l, of initial]
  have "constructed (fst (run [Req_start, Timer, Req_start] initial)) \<le> 1" by blast
  ultimately show ?thesis using l b by blast
qed

section \<open>Properties of the send routes\<close>

lemma send_message_not_ready:
  "\<not> isReady s \<Longrightarrow>
     api_send_message ext b s =
       (res_status_json 400 (JObject [(''status'', JString ''error''),
                                      (''message'', JString ''WhatsApp is not ready'')]), [], s)"
  by (simp add: api_send_message_def)

lemma send_media_not_ready:
  "\<not> isReady s \<Longrightarrow>
     api_send_media ext b s =
       (res_status_json 400 (JObject [(''status'', JString ''error''),
                                      (''message'', JString ''WhatsApp is not ready'')]), [], s)"
  by (simp add: api_send_media_def)

lemma send_message_invalid:
  "isReady s \<Longrightarrow> falsy (phone b) \<or> falsy (message b) \<Longrightarrow>
     api_send_message ext b s =
       (res_status_json 400 (JObject [(''status'', JString ''error''),
                                      (''message'', JString ''Phone and message are required'')]),
        [], s)"
  by (simp add: api_send_message_def)

lemma send_media_invalid:
  "isReady s \<Longrightarrow> falsy (phone b) \<or> falsy (mediaUrl b) \<Longrightarrow>
     api_send_media ext b s =
       (res_status_json 400 (JObject [(''status'', JString ''error''),
                                      (''message'', JString ''Phone and mediaUrl are required'')]),
        [], s)"
  by (simp add: api_send_media_def)

text \<open>
  C2. With \<open>isReady\<close> false, send-message and send-media answer 400 with status \<open>error\<close>
  and \<open>WhatsApp is not ready\<close>, whatever the body and the collaborators are, with no
  external call made and the variables untouched. With \<open>isReady\<close> true, an absent or
  empty \<open>phone\<close>, or an absent or empty \<open>message\<close> (\<open>mediaUrl\<close> for send-media), is
  answered 400 with status \<open>error\<close>, again before any external call.
\<close>

theorem send_routes_reject_not_ready_and_missing_fields:
  "(\<not> isReady s \<longrightarrow>
      api_send_message ext b s =
        (res_status_json 400 (JObject [(''status'', JString ''error''),
                                       (''message'', JString ''WhatsApp is not ready'')]), [], s)
      \<and> api_send_media ext b s =
        (res_status_json 400 (JObject [(''status'', JString ''error''),
                                       (''message'', JString ''WhatsApp is not ready'')]), [], s))
   \<and> (isReady s \<and> (falsy (phone b) \<or> falsy (message b)) \<longrightarrow>
        http (fst (api_send_message ext b s)) = 400
        \<and> field ''status'' (fst (api_send_message ext b s)) = Some (JString ''error'')
        \<and> field ''message'' (fst (api_send_message ext b s))
            = Some (JString ''Phone and message are required'')
        \<and> snd (api_send_message ext b s) = ([], s))
   \<and> (isReady s \<and> (falsy (phone b) \<or> falsy (mediaUrl b)) \<longrightarrow>
        http (fst (api_send_media ext b s)) = 400
        \<and> field ''status'' (fst (api_send_media ext b s)) = Some (JString ''error'')
        \<and> field ''message'' (fst (api_send_media ext b s))
            = Some (JString ''Phone and mediaUrl are required'')
        \<and> snd (api_send_media ext b s) = ([], s))"
proof (intro conjI impI)
  assume "\<not> isReady s"
  then show "api_send_message ext b s =
        (res_status_json 400 (JObject [(''status'', JString ''error''),
                                       (''message'', JString ''WhatsApp is not ready'')]), [], s)"
    by (rule send_message_not_ready)
next
  assume "\<not> isReady s"
  then show "api_send_media ext b s =
        (res_status_json 400 (JObject [(''status'', JString ''error''),
                                       (''message'', JString ''WhatsApp is not ready'')]), [], s)"
    by (rule send_media_not_ready)
next
  assume a: "isReady s \<and> (falsy (phone b) \<or> falsy (message b))"
  then have e: "api_send_message ext b s =
       (res_status_json 400 (JObject [(''status'', JString ''error''),
                                      (''message'', JString ''Phone and message are required'')]),
        [], s)"
    using send_message_invalid [of s b ext] by blast
  show "http (fst (api_send_message ext b s)) = 400"
    and "field ''status'' (fst (api_send_message ext b s)) = Some (JString ''error'')"
    and "field ''message'' (fst (api_send_message ext b s))
            = Some (JString ''Phone and message are required'')"
    and "snd (api_send_message ext b s) = ([], s)"
    by (simp_all add: e res_status_json_def http_def)
next
  assume a: "isReady s \<and> (falsy (phone b) \<or> falsy (mediaUrl b))"
  then have e: "api_send_media ext b s =
       (res_status_json 400 (JObject [(''status'', JString ''error''),
                                      (''message'', JString ''Phone and mediaUrl are required'')]),
        [], s)"
    using send_media_invalid [of s b ext] by blast
  show "http (fst (api_send_media ext b s)) = 400"
    and "field ''status'' (fst (api_send_media ext b s)) = Some (JString ''error'')"
    and "field ''message'' (fst (api_send_media ext b s))
            = Some (JString ''Phone and mediaUrl are required'')"
    and "snd (api_send_media ext b s) = ([], s)"
    by (simp_all add: e res_status_json_def http_def)
qed

lemma boot_eq:
  "boot = \<lparr> client = Handle, qrCodeData = None, isReady = False, isInitializing = True \<rparr>"
  by (simp add: boot_def initializeClient_def initial_def)

lemma ready_session_eq:
  "ready_session = \<lparr> client = Handle, qrCodeData = None, isReady = True, isInitializing = False \<rparr>"
  by (simp add: ready_session_def state_after_def boot_eq)

lemma idle_session_eq:
  "idle_session = \<lparr> client = Null, qrCodeData = None, isReady = False, isInitializing = False \<rparr>"
  by (simp add: idle_session_def state_after_def boot_eq api_logout_def)

theorem send_routes_reject_not_ready_and_missing_fields_witness:
  "\<not> isReady boot \<and> isReady ready_session \<and> falsy (phone empty_body)
   \<and> http (fst (api_send_message unregistered_api text_body boot)) = 400
   \<and> snd (api_send_media unregistered_api media_body boot) = ([], boot)
   \<and> http (fst (api_send_message unregistered_api empty_body ready_session)) = 400
   \<and> snd (api_send_media unregistered_api empty_body ready_session) = ([], ready_session)"
proof -
  have nb: "\<not> isReady boot" by (simp add: boot_eq)
  have r: "isReady ready_session" by (simp add: ready_session_eq)
  have f: "falsy (phone empty_body)" by (simp add: empty_body_def)
  from send_routes_reject_not_ready_and_missing_fields [of boot unregistered_api text_body] nb
  have 1: "http (fst (api_send_message unregistered_api text_body boot)) = 400"
    by (simp add: res_status_json_def http_def)
  from send_routes_reject_not_ready_and_missing_fields [of boot unregistered_api media_body] nb
  have 2: "snd (api_send_media unregistered_api media_body boot) = ([], boot)"
    by simp
  from send_routes_reject_not_ready_and_missing_fields [of ready_session unregistered_api empty_body]
    r f
  have 3: "http (fst (api_send_message unregistered_api empty_body ready_session)) = 400"
    and 4: "snd (api_send_media unregistered_api empty_body ready_session) = ([], ready_session)"
    by blast+
  show ?thesis using nb r f 1 2 3 4 by blast
qed

subsection \<open>The registration check: send-message has it, send-media has not\<close>

lemma send_message_unregistered:
  assumes "isReady s" "truthy (client s)" "phone b = Some p"
    and "isRegisteredUser ext (chatId p) = Inr False"
  shows "http (fst (api_send_message ext b s)) = 400"
    and "field ''status'' (fst (api_send_message ext b s)) = Some (JString ''error'')"
    and "filter is_send (fst (snd (api_send_message ext b s))) = []"
    and "snd (snd (api_send_message ext b s)) = s"
  using assms
  by (simp_all add: api_send_message_def Let_def or_default_def res_status_json_def http_def)

lemma send_message_unregistered_exact:
  assumes "isReady s" "truthy (client s)" "phone b = Some p" "p \<noteq> []"
    and "message b = Some m" "m \<noteq> []"
    and "isRegisteredUser ext (chatId p) = Inr False"
  shows "api_send_message ext b s =
           (res_status_json 400
              (JObject [(''status'', JString ''error''),
                        (''message'', JString ''Phone number is not registered on WhatsApp'')]),
            [IsRegisteredUser (chatId p)], s)"
  using assms by (simp add: api_send_message_def Let_def or_default_def)

lemma send_media_never_checks:
  "filter is_registration_check (fst (snd (api_send_media ext b s))) = []"
  by (simp add: api_send_media_def Let_def split: sum.splits)

lemma send_media_fetches_then_sends:
  assumes "isReady s" "phone b = Some p" "p \<noteq> []" "mediaUrl b = Some u" "u \<noteq> []"
  shows "hd (fst (snd (api_send_media ext b s))) = FromUrl u (or_default (filename b) ''file'')"
    and "truthy (client s) \<Longrightarrow> fromUrl ext u (or_default (filename b) ''file'') = Inr media \<Longrightarrow>
           take 2 (fst (snd (api_send_media ext b s)))
             = [FromUrl u (or_default (filename b) ''file''),
                SendMessage (chatId p) (Media media (or_default (caption b) []))]"
  using assms
  by (simp_all add: api_send_media_def Let_def or_default_Some split: sum.splits)

lemma send_media_fetch_fails:
  assumes "isReady s" "phone b = Some p" "p \<noteq> []" "mediaUrl b = Some u" "u \<noteq> []"
    and "fromUrl ext u (or_default (filename b) ''file'') = Inl err"
  shows "api_send_media ext b s =
           (error_500 err,
            [FromUrl u (or_default (filename b) ''file''),
             ConsoleError [''Send media error:'', err]], s)"
  using assms by (simp add: api_send_media_def Let_def or_default_Some)

lemma send_media_without_client:
  assumes "isReady s" "phone b = Some p" "p \<noteq> []" "mediaUrl b = Some u" "u \<noteq> []"
    and "fromUrl ext u (or_default (filename b) ''file'') = Inr media"
    and "\<not> truthy (client s)"
  shows "api_send_media ext b s =
           (error_500 (type_error (client s) ''sendMessage''),
            [FromUrl u (or_default (filename b) ''file''),
             ConsoleError [''Send media error:'', type_error (client s) ''sendMessage'']], s)"
  using assms by (simp add: api_send_media_def Let_def or_default_Some)

lemma error_500_fields:
  "http (error_500 err) = 500"
  "field ''status'' (error_500 err) = Some (JString ''error'')"
  "field ''message'' (error_500 err) = Some (JString err)"
  by (simp_all add: error_500_def res_status_json_def http_def)

text \<open>
  C6 as stated fails for send-media: a Ready session, a non-empty \<open>phone\<close> and
  \<open>mediaUrl\<close>, and a media URL that answers 404. The fetch is attempted, the route's
  \<open>catch\<close> answers 500 and nothing is sent.
\<close>

theorem send_media_failed_fetch_counterexample:
  "isReady ready_session
   \<and> \<not> falsy (phone media_body)
   \<and> \<not> falsy (mediaUrl media_body)
   \<and> http (fst (api_send_media failing_fetch_api media_body ready_session)) = 500
   \<and> filter is_send (fst (snd (api_send_media failing_fetch_api media_body ready_session))) = []"
  by (simp add: ready_session_eq media_body_def failing_fetch_api_def api_send_media_def Let_def
      or_default_def error_500_def res_status_json_def http_def)

text \<open>
  C6, amended. Send-message checks the destination and send-media does not. In a Ready
  session with a client, when the client reports the normalized destination as
  unregistered, send-message answers 400 with status \<open>error\<close>, sends nothing and leaves
  the variables alone; with both fields non-empty the answer is \<open>Phone number is not
  registered on WhatsApp\<close> and the check is the only external call. Send-media makes no
  \<open>isRegisteredUser\<close> call in any state. Ready and given a non-empty \<open>phone\<close> and
  \<open>mediaUrl\<close> it starts with the fetch; when the fetch returns and there is a client,
  what it returned is sent next, to the normalized destination with the caption; when
  the fetch fails, or returns and there is no client, the answer is 500 with status
  \<open>error\<close> and nothing is sent.
\<close>

theorem registration_check_only_in_send_message:
  "(isReady s \<and> truthy (client s) \<and> phone b = Some p
      \<and> isRegisteredUser ext (chatId p) = Inr False \<longrightarrow>
        http (fst (api_send_message ext b s)) = 400
        \<and> field ''status'' (fst (api_send_message ext b s)) = Some (JString ''error'')
        \<and> filter is_send (fst (snd (api_send_message ext b s))) = []
        \<and> snd (snd (api_send_message ext b s)) = s
        \<and> (p \<noteq> [] \<and> message b = Some m \<and> m \<noteq> [] \<longrightarrow>
             field ''message'' (fst (api_send_message ext b s))
               = Some (JString ''Phone number is not registered on WhatsApp'')
             \<and> fst (snd (api_send_message ext b s)) = [IsRegisteredUser (chatId p)]))
   \<and> filter is_registration_check (fst (snd (api_send_media ext b s))) = []
   \<and> (isReady s \<and> phone b = Some p \<and> p \<noteq> [] \<and> mediaUrl b = Some u \<and> u \<noteq> [] \<longrightarrow>
        hd (fst (snd (api_send_media ext b s))) = FromUrl u (or_default (filename b) ''file'')
        \<and> (truthy (client s) \<and> fromUrl ext u (or_default (filename b) ''file'') = Inr media \<longrightarrow>
             take 2 (fst (snd (api_send_media ext b s)))
               = [FromUrl u (or_default (filename b) ''file''),
                  SendMessage (chatId p) (Media media (or_default (caption b) []))])
        \<and> (fromUrl ext u (or_default (filename b) ''file'') = Inl err
             \<or> \<not> truthy (client s) \<and> fromUrl ext u (or_default (filename b) ''file'') = Inr media
            \<longrightarrow>
             http (fst (api_send_media ext b s)) = 500
             \<and> field ''status'' (fst (api_send_media ext b s)) = Some (JString ''error'')
             \<and> filter is_send (fst (snd (api_send_media ext b s))) = []
             \<and> snd (snd (api_send_media ext b s)) = s))"
proof -
  have A: "field ''message'' (fst (api_send_message ext b s))
               = Some (JString ''Phone number is not registered on WhatsApp'')
           \<and> fst (snd (api_send_message ext b s)) = [IsRegisteredUser (chatId p)]"
    if "isReady s" "truthy (client s)" "phone b = Some p"
      "isRegisteredUser ext (chatId p) = Inr False" "p \<noteq> []" "message b = Some m" "m \<noteq> []"
    using send_message_unregistered_exact [OF that(1,2,3,5,6,7,4)]
    by (simp add: res_status_json_def)
  have B: "http (fst (api_send_media ext b s)) = 500
           \<and> field ''status'' (fst (api_send_media ext b s)) = Some (JString ''error'')
           \<and> filter is_send (fst (snd (api_send_media ext b s))) = []
           \<and> snd (snd (api_send_media ext b s)) = s"
    if "isReady s" "phone b = Some p" "p \<noteq> []" "mediaUrl b = Some u" "u \<noteq> []"
      "fromUrl ext u (or_default (filename b) ''file'') = Inl err"
    using send_media_fetch_fails [OF that] by (simp add: error_500_fields)
  have C: "http (fst (api_send_media ext b s)) = 500
           \<and> field ''status'' (fst (api_send_media ext b s)) = Some (JString ''error'')
           \<and> filter is_send (fst (snd (api_send_media ext b s))) = []
           \<and> snd (snd (api_send_media ext b s)) = s"
    if "isReady s" "phone b = Some p" "p \<noteq> []" "mediaUrl b = Some u" "u \<noteq> []"
      "fromUrl ext u (or_default (filename b) ''file'') = Inr media" "\<not> truthy (client s)"
    using send_media_without_client [OF that] by (simp add: error_500_fields)
  show ?thesis
    using A B C send_message_unregistered [of s b p ext] send_media_never_checks [of ext b s]
      send_media_fetches_then_sends(1) [of s b p u ext]
      send_media_fetches_then_sends(2) [of s b p u ext media]
    by blast
qed

theorem registration_check_only_in_send_message_witness:
  "isReady ready_session \<and> truthy (client ready_session)
   \<and> isRegisteredUser unregistered_api (chatId ''081111'') = Inr False
   \<and> http (fst (api_send_message unregistered_api text_body ready_session)) = 400
   \<and> field ''status'' (fst (api_send_message unregistered_api text_body ready_session))
       = Some (JString ''error'')
   \<and> fst (snd (api_send_message unregistered_api text_body ready_session))
       = [IsRegisteredUser (chatId ''081111'')]
   \<and> take 2 (fst (snd (api_send_media unregistered_api media_body ready_session)))
       = [FromUrl ''http://files/a.png'' ''file'',
          SendMessage (chatId ''081111'') (Media ''file'' [])]
   \<and> fromUrl failing_fetch_api ''http://files/a.png'' ''file''
       = Inl ''Request failed with status code 404''
   \<and> http (fst (api_send_media failing_fetch_api media_body ready_session)) = 500
   \<and> filter is_send (fst (snd (api_send_media failing_fetch_api media_body ready_session))) = []"
proof -
  have r: "isReady ready_session" "truthy (client ready_session)"
    by (simp_all add: ready_session_eq)
  have u: "isRegisteredUser unregistered_api (chatId ''081111'') = Inr False"
    by (simp add: unregistered_api_def)
  have t: "phone text_body = Some ''081111''" "message text_body = Some ''hi''"
    "''081111'' \<noteq> []" "''hi'' \<noteq> []"
    by (simp_all add: text_body_def)
  have m: "phone media_body = Some ''081111''" "mediaUrl media_body = Some ''http://files/a.png''"
    "''http://files/a.png'' \<noteq> []"
    by (simp_all add: media_body_def)
  have od: "or_default (filename media_body) ''file'' = ''file''"
    "or_default (caption media_body) [] = []"
    by (simp_all add: media_body_def or_default_def)
  have f: "fromUrl unregistered_api ''http://files/a.png'' (or_default (filename media_body) ''file'')
             = Inr ''file''"
    by (simp add: unregistered_api_def od)
  have g: "fromUrl failing_fetch_api ''http://files/a.png''
             (or_default (filename media_body) ''file'')
             = Inl ''Request failed with status code 404''"
    by (simp add: failing_fetch_api_def)
  from registration_check_only_in_send_message
    [of ready_session text_body "''081111''" unregistered_api "''hi''"] r u t
  have 1: "http (fst (api_send_message unregistered_api text_body ready_session)) = 400"
    and 2: "field ''status'' (fst (api_send_message unregistered_api text_body ready_session))
       = Some (JString ''error'')"
    and 3: "fst (snd (api_send_message unregistered_api text_body ready_session))
       = [IsRegisteredUser (chatId ''081111'')]"
    by blast+
  from registration_check_only_in_send_message
    [of ready_session media_body "''081111''" unregistered_api "''hi''" "''http://files/a.png''"
        "''file''"] r m f
  have "take 2 (fst (snd (api_send_media unregistered_api media_body ready_session)))
       = [FromUrl ''http://files/a.png'' (or_default (filename media_body) ''file''),
          SendMessage (chatId ''081111'') (Media ''file'' (or_default (caption media_body) []))]"
    by blast
  then have 4: "take 2 (fst (snd (api_send_media unregistered_api media_body ready_session)))
       = [FromUrl ''http://files/a.png'' ''file'',
          SendMessage (chatId ''081111'') (Media ''file'' [])]"
    by (simp only: od)
  from registration_check_only_in_send_message
    [of ready_session media_body "''081111''" failing_fetch_api "''hi''" "''http://files/a.png''"
        "''file''" "''Request failed with status code 404''"] r m g
  have 5: "http (fst (api_send_media failing_fetch_api media_body ready_session)) = 500"
    and 6: "filter is_send (fst (snd (api_send_media failing_fetch_api media_body ready_session)))
              = []"
    by blast+
  have g': "fromUrl failing_fetch_api ''http://files/a.png'' ''file''
       = Inl ''Request failed with status code 404''"
    using g by (simp only: od)
  show ?thesis using r u 1 2 3 4 5 6 g' by blast
qed

section \<open>Properties of restart and logout\<close>

text \<open>
  C8. Logout with no client (\<open>client\<close> is \<open>null\<close>, or still \<open>undefined\<close>) answers 200
  with status \<open>info\<close> and \<open>No active session\<close>, makes no external call and leaves the
  four variables as they were.
\<close>

theorem logout_without_client_is_informational:
  "\<not> truthy (client s) \<Longrightarrow>
     http (fst (api_logout loggedOut destroyed s)) = 200
     \<and> field ''status'' (fst (api_logout loggedOut destroyed s)) = Some (JString ''info'')
     \<and> field ''message'' (fst (api_logout loggedOut destroyed s))
         = Some (JString ''No active session'')
     \<and> snd (api_logout loggedOut destroyed s) = ([], s)"
  by (simp add: api_logout_def res_json_def http_def)

theorem logout_without_client_is_informational_witness:
  "\<not> truthy (client idle_session)
   \<and> http (fst (api_logout (Inr ()) (Inr ()) idle_session)) = 200
   \<and> field ''status'' (fst (api_logout (Inr ()) (Inr ()) idle_session)) = Some (JString ''info'')
   \<and> snd (api_logout (Inr ()) (Inr ()) idle_session) = ([], idle_session)
   \<and> snd (api_logout (Inl ''gone'') (Inr ()) initial) = ([], initial)"
proof -
  have a: "\<not> truthy (client idle_session)" by (simp add: idle_session_eq)
  have b: "\<not> truthy (client initial)" by (simp add: initial_def)
  show ?thesis
    using logout_without_client_is_informational [OF a, of "Inr ()" "Inr ()"]
      logout_without_client_is_informational [OF b, of "Inl ''gone''" "Inr ()"] a
    by blast
qed

subsection \<open>Failures of destroy and logout\<close>

text \<open>
  C4 as stated fails for logout. A Ready session whose \<open>client.logout()\<close> rejects is
  answered 500 with status \<open>error\<close>, and the client and \<open>isReady\<close> stay as they were:
  the handle is not discarded and no success is reported.
\<close>

theorem logout_failure_aborts_counterexample:
  "truthy (client ready_session)
   \<and> http (fst (api_logout (Inl ''Protocol error'') (Inr ()) ready_session)) = 500
   \<and> field ''status'' (fst (api_logout (Inl ''Protocol error'') (Inr ()) ready_session))
       = Some (JString ''error'')
   \<and> client (snd (snd (api_logout (Inl ''Protocol error'') (Inr ()) ready_session))) = Handle
   \<and> isReady (snd (snd (api_logout (Inl ''Protocol error'') (Inr ()) ready_session)))"
  by (simp add: ready_session_eq api_logout_def error_500_def res_status_json_def http_def)

lemma restart_with_client:
  assumes "truthy (client s)"
  shows "api_restart destroyed s =
           (res_json (JObject [(''status'', JString ''success''),
                               (''message'', JString
                                  ''WhatsApp client restarting. Check /api/qr in a few seconds'')]),
            ClientDestroy #
              (case destroyed of
                 Inl err \<Rightarrow> [ConsoleLog [''Error destroying client:'', err]]
               | Inr u \<Rightarrow> []) @ [SetTimeout 1000],
            \<lparr> client = Null, qrCodeData = None, isReady = False, isInitializing = False \<rparr>)"
  using assms by (simp add: api_restart_def)

lemma logout_with_client:
  assumes "truthy (client s)"
  shows "api_logout (Inl err) destroyed s = (error_500 err, [ClientLogout], s)"
    and "api_logout (Inr ()) (Inl err) s = (error_500 err, [ClientLogout, ClientDestroy], s)"
    and "api_logout (Inr ()) (Inr ()) s =
           (res_json (JObject [(''status'', JString ''success''),
                               (''message'', JString
                                  ''Logged out successfully. Use /api/restart to reconnect'')]),
            [ClientLogout, ClientDestroy],
            \<lparr> client = Null, qrCodeData = None, isReady = False, isInitializing = False \<rparr>)"
  using assms by (simp_all add: api_logout_def)

text \<open>
  C4, amended. With a client, a restart whose \<open>destroy()\<close> rejects logs the failure
  (\<open>Error destroying client:\<close> and the message), discards the handle, resets the three
  flags, schedules the re-initialization and answers 200 with status \<open>success\<close>, exactly
  as a restart whose \<open>destroy()\<close> returns. A logout whose \<open>logout()\<close> or \<open>destroy()\<close>
  rejects is answered 500 with status \<open>error\<close> and the failure's message, logs nothing
  and writes none of the variables; only a logout whose two calls return discards the
  handle, resets the flags and answers \<open>success\<close>.
\<close>

theorem restart_absorbs_destroy_failure_logout_reports_failure:
  "truthy (client s) \<Longrightarrow>
     http (fst (api_restart (Inl err) s)) = 200
     \<and> field ''status'' (fst (api_restart (Inl err) s)) = Some (JString ''success'')
     \<and> fst (snd (api_restart (Inl err) s))
         = [ClientDestroy, ConsoleLog [''Error destroying client:'', err], SetTimeout 1000]
     \<and> snd (snd (api_restart (Inl err) s))
         = \<lparr> client = Null, qrCodeData = None, isReady = False, isInitializing = False \<rparr>
     \<and> fst (api_restart (Inr ()) s) = fst (api_restart (Inl err) s)
     \<and> snd (snd (api_restart (Inr ()) s)) = snd (snd (api_restart (Inl err) s))
     \<and> api_logout (Inl err) destroyed s = (error_500 err, [ClientLogout], s)
     \<and> api_logout (Inr ()) (Inl err) s = (error_500 err, [ClientLogout, ClientDestroy], s)
     \<and> http (error_500 err) = 500
     \<and> field ''status'' (error_500 err) = Some (JString ''error'')
     \<and> field ''message'' (error_500 err) = Some (JString err)
     \<and> field ''status'' (fst (api_logout (Inr ()) (Inr ()) s)) = Some (JString ''success'')
     \<and> snd (api_logout (Inr ()) (Inr ()) s)
         = ([ClientLogout, ClientDestroy],
            \<lparr> client = Null, qrCodeData = None, isReady = False, isInitializing = False \<rparr>)"
proof -
  assume c: "truthy (client s)"
  have e: "http (error_500 err) = 500"
    "field ''status'' (error_500 err) = Some (JString ''error'')"
    "field ''message'' (error_500 err) = Some (JString err)"
    by (simp_all add: error_500_def res_status_json_def http_def)
  have h: "http (code, body) = code" for code body by (simp add: http_def)
  show ?thesis
    by (simp add: h e restart_with_client [OF c] logout_with_client [OF c] res_json_def)
qed

theorem restart_absorbs_destroy_failure_logout_reports_failure_witness:
  "truthy (client ready_session)
   \<and> field ''status'' (fst (api_restart (Inl ''Target closed'') ready_session))
       = Some (JString ''success'')
   \<and> snd (snd (api_restart (Inl ''Target closed'') ready_session)) = idle_session
   \<and> api_logout (Inl ''Target closed'') (Inr ()) ready_session
       = (error_500 ''Target closed'', [ClientLogout], ready_session)
   \<and> snd (snd (api_logout (Inr ()) (Inr ()) ready_session)) = idle_session"
proof -
  have c: "truthy (client ready_session)" by (simp add: ready_session_eq)
  from restart_absorbs_destroy_failure_logout_reports_failure
    [OF c, of "''Target closed''" "Inr ()"]
  show ?thesis using c by (simp add: idle_session_eq)
qed

section \<open>Properties of runs\<close>

lemma run_append:
  "run (a @ b) s =
     (case run a s of (e1, s1) \<Rightarrow> (case run b s1 of (e2, s2) \<Rightarrow> (e1 @ e2, s2)))"
  by (induction a arbitrary: s) (auto split: prod.splits)

lemma state_after_Nil: "state_after [] s = s"
  by (simp add: state_after_def)

lemma state_after_Cons: "state_after (st # sts) s = state_after sts (snd (exec st s))"
  by (simp add: state_after_def split: prod.splits)

lemma state_after_append: "state_after (a @ b) s = state_after b (state_after a s)"
  by (simp add: state_after_def run_append split: prod.splits)

lemma send_message_keeps_state: "snd (snd (api_send_message ext b s)) = s"
  by (simp add: api_send_message_def Let_def split: sum.splits bool.splits)

lemma send_media_keeps_state: "snd (snd (api_send_media ext b s)) = s"
  by (simp add: api_send_media_def Let_def split: sum.splits)

lemma qr_keeps_state: "snd (snd (api_qr s)) = s"
  by (simp add: api_qr_def)

lemma status_keeps_state: "snd (snd (api_status s)) = s"
  by (simp add: api_status_def)


lemma writes_nothing_exec: "writes_nothing (client s) st \<Longrightarrow> snd (exec st s) = s"
proof (cases st)
  case Req_start
  assume "writes_nothing (client s) st"
  with Req_start show ?thesis by (simp add: api_start_def)
next
  case (Req_logout l d)
  assume "writes_nothing (client s) st"
  with Req_logout show ?thesis
    by (cases l; cases d) (simp_all add: api_logout_def)
next
  case (Event e)
  assume w: "writes_nothing (client s) st"
  show ?thesis
  proof (cases e)
    case (Qr qr rendered)
    with w Event show ?thesis by (cases rendered) simp_all
  qed (use w Event in simp_all)
qed (simp_all add: qr_keeps_state status_keeps_state send_message_keeps_state
      send_media_keeps_state)

lemma writes_nothing_run:
  "list_all (writes_nothing (client s)) w \<Longrightarrow> state_after w s = s"
  by (induction w) (simp_all add: state_after_Nil state_after_Cons writes_nothing_exec)

subsection \<open>What holds in every state the server reaches\<close>

text \<open>
  Once the module is loaded \<open>client\<close> is never \<open>undefined\<close> again, and a stored QR
  artifact excludes \<open>isInitializing\<close>: only the qr callback stores one, clearing the
  flag, and only \<open>initializeClient\<close> sets the flag, clearing the artifact.
\<close>

lemma exec_keeps_invariant:
  assumes "client s \<noteq> Undefined" and "qrCodeData s \<noteq> None \<longrightarrow> \<not> isInitializing s"
  shows "client (snd (exec st s)) \<noteq> Undefined
         \<and> (qrCodeData (snd (exec st s)) \<noteq> None \<longrightarrow> \<not> isInitializing (snd (exec st s)))"
proof (cases st)
  case Req_start
  then show ?thesis using assms by (auto simp: api_start_def initializeClient_def)
next
  case (Req_restart d)
  then show ?thesis using assms by (simp add: api_restart_def)
next
  case Timer
  then show ?thesis using assms by (auto simp: initializeClient_def)
next
  case Req_qr
  then show ?thesis using assms by (simp add: qr_keeps_state)
next
  case Req_status
  then show ?thesis using assms by (simp add: status_keeps_state)
next
  case (Req_send_message ext b)
  then show ?thesis using assms by (simp add: send_message_keeps_state)
next
  case (Req_send_media ext b)
  then show ?thesis using assms by (simp add: send_media_keeps_state)
next
  case (Req_logout l d)
  then show ?thesis using assms by (auto simp: api_logout_def split: sum.splits)
next
  case (Event e)
  then show ?thesis using assms by (cases e) (auto split: sum.splits)
qed

lemma run_keeps_invariant:
  "client s \<noteq> Undefined \<Longrightarrow> (qrCodeData s \<noteq> None \<longrightarrow> \<not> isInitializing s) \<Longrightarrow>
     client (state_after sts s) \<noteq> Undefined
     \<and> (qrCodeData (state_after sts s) \<noteq> None \<longrightarrow> \<not> isInitializing (state_after sts s))"
proof (induction sts arbitrary: s)
  case Nil
  then show ?case by (simp add: state_after_Nil)
next
  case (Cons st sts)
  from exec_keeps_invariant [OF Cons.prems(1) Cons.prems(2), of st]
  show ?case using Cons.IH [of "snd (exec st s)"] by (simp add: state_after_Cons)
qed

lemma reached_invariant:
  "client (state_after sts boot) \<noteq> Undefined"
  "qrCodeData (state_after sts boot) \<noteq> None \<Longrightarrow> \<not> isInitializing (state_after sts boot)"
  using run_keeps_invariant [of boot sts] by (simp_all add: boot_eq)

subsection \<open>Steps that store no artifact, steps that do not set isReady\<close>

lemma exec_keeps_no_artifact:
  assumes "qrCodeData s = None" "\<not> stores_artifact st"
  shows "qrCodeData (snd (exec st s)) = None"
proof (cases st)
  case Req_start
  then show ?thesis using assms by (simp add: api_start_def initializeClient_def)
next
  case (Req_restart d)
  then show ?thesis by (simp add: api_restart_def split: prod.splits)
next
  case Timer
  then show ?thesis using assms by (simp add: initializeClient_def)
next
  case (Req_logout l d)
  then show ?thesis using assms by (simp add: api_logout_def split: sum.splits)
next
  case (Event e)
  show ?thesis
  proof (cases e)
    case (Qr qr rendered)
    with assms Event show ?thesis by (cases rendered) simp_all
  qed (use assms Event in simp_all)
qed (use assms in \<open>simp_all add: qr_keeps_state status_keeps_state send_message_keeps_state
      send_media_keeps_state\<close>)

lemma run_keeps_no_artifact:
  "qrCodeData s = None \<Longrightarrow> \<not> list_ex stores_artifact w \<Longrightarrow>
     qrCodeData (state_after w s) = None"
proof (induction w arbitrary: s)
  case Nil
  then show ?case by (simp add: state_after_Nil)
next
  case (Cons st w)
  from Cons.prems have "\<not> stores_artifact st" and rest: "\<not> list_ex stores_artifact w"
    by simp_all
  with Cons.prems(1) have "qrCodeData (snd (exec st s)) = None"
    by (intro exec_keeps_no_artifact)
  from Cons.IH [OF this rest] show ?case by (simp add: state_after_Cons)
qed

lemma exec_keeps_not_ready:
  assumes "\<not> isReady s" "\<not> sets_ready st"
  shows "\<not> isReady (snd (exec st s))"
proof (cases st)
  case Req_start
  then show ?thesis using assms by (simp add: api_start_def initializeClient_def)
next
  case (Req_restart d)
  then show ?thesis by (simp add: api_restart_def split: prod.splits)
next
  case Timer
  then show ?thesis using assms by (simp add: initializeClient_def)
next
  case (Req_logout l d)
  then show ?thesis using assms by (simp add: api_logout_def split: sum.splits)
next
  case (Event e)
  show ?thesis
  proof (cases e)
    case (Qr qr rendered)
    with assms Event show ?thesis by (cases rendered) simp_all
  qed (use assms Event in simp_all)
qed (use assms in \<open>simp_all add: qr_keeps_state status_keeps_state send_message_keeps_state
      send_media_keeps_state\<close>)

lemma run_keeps_not_ready:
  "\<not> isReady s \<Longrightarrow> \<not> list_ex sets_ready w \<Longrightarrow> \<not> isReady (state_after w s)"
proof (induction w arbitrary: s)
  case Nil
  then show ?case by (simp add: state_after_Nil)
next
  case (Cons st w)
  from Cons.prems have "\<not> sets_ready st" and rest: "\<not> list_ex sets_ready w"
    by simp_all
  with Cons.prems(1) have "\<not> isReady (snd (exec st s))"
    by (intro exec_keeps_not_ready)
  from Cons.IH [OF this rest] show ?case by (simp add: state_after_Cons)
qed

subsection \<open>The QR artifact after the ready and qr events\<close>

text \<open>
  C5 as stated fails: a qr event that reaches a session whose \<open>isReady\<close> is set (here a
  ready event came first) stores the artifact, yet the qr route answers \<open>qr: null\<close>,
  because it tests \<open>isReady\<close> before anything else. No later ready, authenticated,
  auth_failure or disconnected event is involved.
\<close>

theorem qr_event_while_ready_counterexample:
  "qrCodeData (state_after [Event Ready, Event (Qr ''2@abc'' (Inr ()))] boot) = Some ''2@abc''
   \<and> field ''qr'' (fst (api_qr (state_after [Event Ready, Event (Qr ''2@abc'' (Inr ()))] boot)))
       = Some JNull"
  by (simp add: state_after_def boot_eq api_qr_def res_json_def)

lemma qr_route_when_ready:
  "isReady s \<Longrightarrow> field ''qr'' (fst (api_qr s)) = Some JNull"
  by (simp add: api_qr_def res_json_def)

lemma qr_route_without_artifact:
  "qrCodeData s = None \<Longrightarrow> field ''qr'' (fst (api_qr s)) = Some JNull"
  by (simp add: api_qr_def res_json_def)

lemma qr_route_with_artifact:
  "\<not> isReady s \<Longrightarrow> qrCodeData s = Some d \<Longrightarrow> d \<noteq> [] \<Longrightarrow>
     field ''status'' (fst (api_qr s)) = Some (JString ''success'')
     \<and> field ''qr'' (fst (api_qr s)) = Some (JString d)"
  by (simp add: api_qr_def res_json_def json_of_def)

lemma qr_route_with_empty_artifact:
  "qrCodeData s = Some [] \<Longrightarrow> field ''qr'' (fst (api_qr s)) = Some JNull"
  by (simp add: api_qr_def res_json_def)

lemma status_route_hasQR:
  "field ''hasQR'' (fst (api_status s)) = Some (JBool (qrCodeData s \<noteq> None))"
  by (simp add: api_status_def res_json_def)

text \<open>
  C5, amended. After a ready event the qr route answers \<open>qr: null\<close>, through every
  later step, until a qr event stores a new artifact. A \<open>qr(data)\<close> event whose
  rendering on the terminal throws stores nothing. After a \<open>qr(data)\<close> event whose
  rendering returns, the status route reports \<open>hasQR: true\<close>, and the qr route returns
  the stored artifact when \<open>isReady\<close> was false as the event arrived and \<open>data\<close> is a
  non-empty string; it answers \<open>qr: null\<close> when \<open>isReady\<close> was true or \<open>data\<close> is
  empty. This holds right after the event and through the later steps that write no
  variable: reads, sends, inbound messages, a start that finds a client, a logout that
  fails or finds no client, a qr event whose rendering throws.
\<close>

theorem qr_route_after_ready_and_qr_events:
  "(\<not> list_ex stores_artifact w \<longrightarrow>
      field ''qr'' (fst (api_qr (state_after (Event Ready # w) s))) = Some JNull)
   \<and> snd (on_event (Qr d (Inl err)) s) = s
   \<and> (list_all (writes_nothing (client s)) w \<longrightarrow>
        field ''hasQR'' (fst (api_status (state_after (Event (Qr d (Inr ())) # w) s)))
          = Some (JBool True)
        \<and> (\<not> isReady s \<and> d \<noteq> [] \<longrightarrow>
             field ''status'' (fst (api_qr (state_after (Event (Qr d (Inr ())) # w) s)))
               = Some (JString ''success'')
             \<and> field ''qr'' (fst (api_qr (state_after (Event (Qr d (Inr ())) # w) s)))
                 = Some (JString d))
        \<and> (isReady s \<or> d = [] \<longrightarrow>
             field ''qr'' (fst (api_qr (state_after (Event (Qr d (Inr ())) # w) s)))
               = Some JNull))"
proof (intro conjI impI)
  assume "\<not> list_ex stores_artifact w"
  then have "qrCodeData (state_after w (snd (on_event Ready s))) = None"
    by (intro run_keeps_no_artifact) simp_all
  then show "field ''qr'' (fst (api_qr (state_after (Event Ready # w) s))) = Some JNull"
    by (simp add: state_after_Cons qr_route_without_artifact)
next
  show "snd (on_event (Qr d (Inl err)) s) = s" by simp
next
  assume w: "list_all (writes_nothing (client s)) w"
  have c: "client (snd (on_event (Qr d (Inr ())) s)) = client s" by simp
  have q: "state_after (Event (Qr d (Inr ())) # w) s = snd (on_event (Qr d (Inr ())) s)"
    using writes_nothing_run [of "snd (on_event (Qr d (Inr ())) s)" w] w
    by (simp only: c state_after_Cons exec.simps)
  show "field ''hasQR'' (fst (api_status (state_after (Event (Qr d (Inr ())) # w) s)))
          = Some (JBool True)"
    unfolding q by (simp add: status_route_hasQR)
  {
    assume "\<not> isReady s \<and> d \<noteq> []"
    then have "field ''status'' (fst (api_qr (snd (on_event (Qr d (Inr ())) s))))
                 = Some (JString ''success'')
               \<and> field ''qr'' (fst (api_qr (snd (on_event (Qr d (Inr ())) s))))
                   = Some (JString d)"
      by (intro qr_route_with_artifact) simp_all
    then show "field ''status'' (fst (api_qr (state_after (Event (Qr d (Inr ())) # w) s)))
               = Some (JString ''success'')"
      and "field ''qr'' (fst (api_qr (state_after (Event (Qr d (Inr ())) # w) s)))
                 = Some (JString d)"
      unfolding q by simp_all
  }
  {
    assume "isReady s \<or> d = []"
    then show "field ''qr'' (fst (api_qr (state_after (Event (Qr d (Inr ())) # w) s)))
               = Some JNull"
      unfolding q
      by (auto intro: qr_route_when_ready qr_route_with_empty_artifact)
  }
qed

theorem qr_route_after_ready_and_qr_events_witness:
  "\<not> list_ex stores_artifact
        [Req_status, Event (Disconnected ''LOGOUT''), Req_restart (Inr ()), Timer, Req_qr]
   \<and> list_all (writes_nothing (client boot)) [Req_status, Req_start, Req_qr]
   \<and> \<not> isReady boot
   \<and> isReady ready_session
   \<and> field ''qr''
        (fst (api_qr (state_after
           (Event Ready #
              [Req_status, Event (Disconnected ''LOGOUT''), Req_restart (Inr ()), Timer, Req_qr])
           boot)))
       = Some JNull
   \<and> field ''hasQR''
        (fst (api_status (state_after
           (Event (Qr ''2@abc'' (Inr ())) # [Req_status, Req_start, Req_qr]) boot)))
       = Some (JBool True)
   \<and> field ''qr''
        (fst (api_qr (state_after
           (Event (Qr ''2@abc'' (Inr ())) # [Req_status, Req_start, Req_qr]) boot)))
       = Some (JString ''2@abc'')
   \<and> field ''qr''
        (fst (api_qr (state_after (Event (Qr ''2@abc'' (Inr ())) # []) ready_session)))
       = Some JNull"
proof -
  have n: "\<not> list_ex stores_artifact
        [Req_status, Event (Disconnected ''LOGOUT''), Req_restart (Inr ()), Timer, Req_qr]"
    by simp
  have w: "list_all (writes_nothing (client boot)) [Req_status, Req_start, Req_qr]"
    by (simp add: boot_eq)
  have e: "list_all (writes_nothing (client ready_session)) []" by simp
  have b: "\<not> isReady boot" by (simp add: boot_eq)
  have r: "isReady ready_session" by (simp add: ready_session_eq)
  have d: "''2@abc'' \<noteq> []" by simp
  from qr_route_after_ready_and_qr_events
    [of "[Req_status, Event (Disconnected ''LOGOUT''), Req_restart (Inr ()), Timer, Req_qr]" boot]
    n
  have 1: "field ''qr''
        (fst (api_qr (state_after
           (Event Ready #
              [Req_status, Event (Disconnected ''LOGOUT''), Req_restart (Inr ()), Timer, Req_qr])
           boot)))
       = Some JNull"
    by blast
  from qr_route_after_ready_and_qr_events
    [of "[Req_status, Req_start, Req_qr]" boot "''2@abc''"] w b d
  have 2: "field ''hasQR''
        (fst (api_status (state_after
           (Event (Qr ''2@abc'' (Inr ())) # [Req_status, Req_start, Req_qr]) boot)))
       = Some (JBool True)"
    and 3: "field ''qr''
        (fst (api_qr (state_after
           (Event (Qr ''2@abc'' (Inr ())) # [Req_status, Req_start, Req_qr]) boot)))
       = Some (JString ''2@abc'')"
    by blast+
  from qr_route_after_ready_and_qr_events [of "[]" ready_session "''2@abc''"] e r
  have 4: "field ''qr''
        (fst (api_qr (state_after (Event (Qr ''2@abc'' (Inr ())) # []) ready_session)))
       = Some JNull"
    by blast
  show ?thesis using n w b r 1 2 3 4 by blast
qed

subsection \<open>Between a restart and its timer\<close>

text \<open>
  C7 as stated fails: the restart discards the handle but the callbacks registered on it
  stay. When \<open>destroy()\<close> has failed and the old client goes on to emit its qr event
  before the timer fires, the status route reports \<open>hasQR: true\<close> in the settling
  window.
\<close>

theorem restart_window_late_qr_counterexample:
  "field ''status'' (fst (api_restart (Inl ''browser not launched'') boot))
     = Some (JString ''success'')
   \<and> field ''hasQR''
        (fst (api_status
          (state_after
             [Req_restart (Inl ''browser not launched''), Event (Qr ''2@abc'' (Inr ()))] boot)))
       = Some (JBool True)"
  by (simp add: state_after_def boot_eq api_restart_def api_status_def res_json_def)

lemma restart_leaves_idle:
  "client s \<noteq> Undefined \<Longrightarrow>
     snd (snd (api_restart d s))
       = \<lparr> client = Null, qrCodeData = None, isReady = False, isInitializing = False \<rparr>"
  by (cases "client s") (simp_all add: api_restart_def)

lemma restart_answers_success:
  "http (fst (api_restart d s)) = 200
   \<and> field ''status'' (fst (api_restart d s)) = Some (JString ''success'')"
  by (simp add: api_restart_def res_json_def http_def split: prod.splits)

text \<open>
  No callback writes \<open>client\<close> or sets \<open>isInitializing\<close>, and no request but start
  does, through \<open>initializeClient\<close>. With \<open>client\<close> null and \<open>isInitializing\<close> false a
  call of \<open>initializeClient\<close> passes both guards and constructs a client, so "no client
  constructed since" says that \<open>initializeClient\<close> has not run again.
\<close>

lemma settling_exec:
  assumes "constructed (fst (exec st s)) = 0" "client s = Null" "\<not> isInitializing s"
  shows "client (snd (exec st s)) = Null \<and> \<not> isInitializing (snd (exec st s))"
proof (cases st)
  case Req_start
  then show ?thesis using assms
    by (simp add: api_start_def initializeClient_def constructed_def split: if_splits)
next
  case Timer
  then show ?thesis using assms by (simp add: initializeClient_def constructed_def)
next
  case (Req_restart d)
  then show ?thesis using assms by (simp add: api_restart_def)
next
  case (Req_logout l d)
  then show ?thesis using assms by (simp add: api_logout_def)
next
  case (Event e)
  show ?thesis
  proof (cases e)
    case (Qr qr rendered)
    with assms Event show ?thesis by (cases rendered) simp_all
  qed (use assms Event in simp_all)
qed (use assms in \<open>simp_all add: qr_keeps_state status_keeps_state send_message_keeps_state
      send_media_keeps_state\<close>)

lemma constructed_run_Cons:
  "constructed (fst (run (st # w) s))
     = constructed (fst (exec st s)) + constructed (fst (run w (snd (exec st s))))"
  by (simp add: constructed_append split: prod.splits)

lemma settling_run:
  "constructed (fst (run w s)) = 0 \<Longrightarrow> client s = Null \<Longrightarrow> \<not> isInitializing s \<Longrightarrow>
     client (state_after w s) = Null \<and> \<not> isInitializing (state_after w s)"
proof (induction w arbitrary: s)
  case Nil
  then show ?case by (simp add: state_after_Nil)
next
  case (Cons st w)
  from Cons.prems(1)
  have "constructed (fst (exec st s)) + constructed (fst (run w (snd (exec st s)))) = 0"
    by (simp only: constructed_run_Cons)
  then have c1: "constructed (fst (exec st s)) = 0"
    and rest: "constructed (fst (run w (snd (exec st s)))) = 0"
    by simp_all
  from settling_exec [OF c1 Cons.prems(2) Cons.prems(3)]
  have "client (snd (exec st s)) = Null" and "\<not> isInitializing (snd (exec st s))"
    by simp_all
  from Cons.IH [OF rest this] show ?case by (simp add: state_after_Cons)
qed

lemma settling_steps_construct_nothing:
  "list_all settling w \<Longrightarrow> constructed (fst (run w s)) = 0"
proof (induction w arbitrary: s)
  case Nil
  then show ?case by (simp add: constructed_def)
next
  case (Cons st w)
  from Cons.prems have st: "settling st" and rest: "list_all settling w" by simp_all
  have "constructed (fst (exec st s)) = 0"
  proof (cases st)
    case (Req_restart d)
    then show ?thesis
      by (simp add: api_restart_def constructed_def split: prod.splits sum.splits)
  next
    case (Req_send_message ext b)
    then show ?thesis
      by (simp add: api_send_message_def Let_def constructed_def split: sum.splits bool.splits)
  next
    case (Req_send_media ext b)
    then show ?thesis
      by (simp add: api_send_media_def Let_def constructed_def split: sum.splits)
  next
    case (Req_logout l d)
    then show ?thesis by (simp add: api_logout_def constructed_def split: sum.splits)
  next
    case (Event ev)
    then show ?thesis by (cases ev) (simp_all add: constructed_def split: sum.splits)
  qed (use st in \<open>simp_all add: api_qr_def api_status_def constructed_def\<close>)
  with Cons.IH [OF rest, of "snd (exec st s)"] show ?case
    unfolding constructed_run_Cons by simp
qed

lemma status_route_fields:
  "field ''isReady'' (fst (api_status s)) = Some (JBool (isReady s))"
  "field ''isInitializing'' (fst (api_status s)) = Some (JBool (isInitializing s))"
  "field ''hasClient'' (fst (api_status s)) = Some (JBool (client s \<noteq> Null))"
  "\<not> isReady s \<Longrightarrow> \<not> isInitializing s \<Longrightarrow>
     field ''status'' (fst (api_status s)) = Some (JString ''not_ready'')"
  by (simp_all add: api_status_def res_json_def)

text \<open>
  C7, amended. Whatever ran before it, a restart answers 200 with status \<open>success\<close>.
  From that answer on, through every request, event and timer, as long as
  \<open>initializeClient\<close> has not run again (no client has been constructed since the
  restart), the status route reports \<open>isInitializing: false\<close> and \<open>hasClient: false\<close>. It
  reports \<open>isReady: false\<close> and status \<open>not_ready\<close> as long as no ready event has
  arrived since the restart, and \<open>hasQR: false\<close> as long as no qr event has stored an
  artifact since the restart. No sequence of steps without a start and a timer
  constructs a client.
\<close>

theorem restart_settles_until_reinitialization:
  "constructed (fst (run w (state_after (pre @ [Req_restart d]) boot))) = 0 \<Longrightarrow>
     http (fst (api_restart d (state_after pre boot))) = 200
     \<and> field ''status'' (fst (api_restart d (state_after pre boot))) = Some (JString ''success'')
     \<and> field ''isInitializing'' (fst (api_status (state_after (pre @ Req_restart d # w) boot)))
         = Some (JBool False)
     \<and> field ''hasClient'' (fst (api_status (state_after (pre @ Req_restart d # w) boot)))
         = Some (JBool False)
     \<and> (\<not> list_ex sets_ready w \<longrightarrow>
          field ''isReady'' (fst (api_status (state_after (pre @ Req_restart d # w) boot)))
            = Some (JBool False)
          \<and> field ''status'' (fst (api_status (state_after (pre @ Req_restart d # w) boot)))
              = Some (JString ''not_ready''))
     \<and> (\<not> list_ex stores_artifact w \<longrightarrow>
          field ''hasQR'' (fst (api_status (state_after (pre @ Req_restart d # w) boot)))
            = Some (JBool False))
     \<and> (list_all settling w' \<longrightarrow>
          constructed (fst (run w' (state_after (pre @ [Req_restart d]) boot))) = 0)"
proof -
  define idle where
    "idle = \<lparr> client = Null, qrCodeData = None, isReady = False, isInitializing = False \<rparr>"
  have r: "state_after (pre @ [Req_restart d]) boot = idle"
    by (simp add: state_after_append state_after_Cons state_after_Nil idle_def
        restart_leaves_idle reached_invariant(1))
  assume "constructed (fst (run w (state_after (pre @ [Req_restart d]) boot))) = 0"
  then have w: "constructed (fst (run w idle)) = 0" by (simp only: r)
  have "state_after (pre @ Req_restart d # w) boot
          = state_after w (state_after (pre @ [Req_restart d]) boot)"
    by (simp add: state_after_append state_after_Cons state_after_Nil)
  then have s: "state_after (pre @ Req_restart d # w) boot = state_after w idle"
    by (simp only: r)
  have i: "client idle = Null" "\<not> isInitializing idle" "\<not> isReady idle" "qrCodeData idle = None"
    by (simp_all add: idle_def)
  from settling_run [OF w i(1) i(2)]
  have a: "client (state_after w idle) = Null" and b: "\<not> isInitializing (state_after w idle)"
    by simp_all
  have c: "\<not> isReady (state_after w idle)" if "\<not> list_ex sets_ready w"
    using run_keeps_not_ready [OF i(3) that] .
  have q: "qrCodeData (state_after w idle) = None" if "\<not> list_ex stores_artifact w"
    using run_keeps_no_artifact [OF i(4) that] .
  have n: "constructed (fst (run w' (state_after (pre @ [Req_restart d]) boot))) = 0"
    if "list_all settling w'"
    using that by (rule settling_steps_construct_nothing)
  show ?thesis
    unfolding s
    using a b c q n restart_answers_success [of d "state_after pre boot"]
    by (simp add: status_route_fields status_route_hasQR)
qed

theorem restart_settles_until_reinitialization_witness:
  "list_all settling
     [Req_status, Event (Disconnected ''NAVIGATION''), Req_logout (Inr ()) (Inr ()), Req_qr]
   \<and> \<not> list_ex sets_ready
     [Req_status, Event (Disconnected ''NAVIGATION''), Req_logout (Inr ()) (Inr ()), Req_qr]
   \<and> \<not> list_ex stores_artifact
     [Req_status, Event (Disconnected ''NAVIGATION''), Req_logout (Inr ()) (Inr ()), Req_qr]
   \<and> constructed (fst (run
        [Req_status, Event (Disconnected ''NAVIGATION''), Req_logout (Inr ()) (Inr ()), Req_qr]
        (state_after ([Event Ready] @ [Req_restart (Inr ())]) boot))) = 0
   \<and> constructed (fst (run
        [Event Ready, Event (Qr ''2@abc'' (Inr ())), Req_start]
        (state_after ([Event Ready] @ [Req_restart (Inr ())]) boot))) = 0
   \<and> field ''status'' (fst (api_restart (Inr ()) (state_after [Event Ready] boot)))
       = Some (JString ''success'')
   \<and> field ''isReady''
        (fst (api_status (state_after
           ([Event Ready] @ Req_restart (Inr ()) #
              [Req_status, Event (Disconnected ''NAVIGATION''), Req_logout (Inr ()) (Inr ()),
               Req_qr])
           boot)))
       = Some (JBool False)
   \<and> field ''hasQR''
        (fst (api_status (state_after
           ([Event Ready] @ Req_restart (Inr ()) #
              [Req_status, Event (Disconnected ''NAVIGATION''), Req_logout (Inr ()) (Inr ()),
               Req_qr])
           boot)))
       = Some (JBool False)
   \<and> field ''isInitializing''
        (fst (api_status (state_after
           ([Event Ready] @ Req_restart (Inr ()) #
              [Event Ready, Event (Qr ''2@abc'' (Inr ())), Req_start])
           boot)))
       = Some (JBool False)
   \<and> field ''hasClient''
        (fst (api_status (state_after
           ([Event Ready] @ Req_restart (Inr ()) #
              [Event Ready, Event (Qr ''2@abc'' (Inr ())), Req_start])
           boot)))
       = Some (JBool False)"
proof -
  have w: "list_all settling
     [Req_status, Event (Disconnected ''NAVIGATION''), Req_logout (Inr ()) (Inr ()), Req_qr]"
    and r: "\<not> list_ex sets_ready
     [Req_status, Event (Disconnected ''NAVIGATION''), Req_logout (Inr ()) (Inr ()), Req_qr]"
    and q: "\<not> list_ex stores_artifact
     [Req_status, Event (Disconnected ''NAVIGATION''), Req_logout (Inr ()) (Inr ()), Req_qr]"
    by simp_all
  have s: "state_after ([Event Ready] @ [Req_restart (Inr ())]) boot = idle_session"
    by (simp add: state_after_def boot_eq api_restart_def idle_session_eq)
  have c: "constructed (fst (run
        [Req_status, Event (Disconnected ''NAVIGATION''), Req_logout (Inr ()) (Inr ()), Req_qr]
        (state_after ([Event Ready] @ [Req_restart (Inr ())]) boot))) = 0"
    unfolding s
    by (simp add: idle_session_eq api_status_def api_logout_def api_qr_def constructed_def)
  have v: "constructed (fst (run
        [Event Ready, Event (Qr ''2@abc'' (Inr ())), Req_start]
        (state_after ([Event Ready] @ [Req_restart (Inr ())]) boot))) = 0"
    unfolding s by (simp add: idle_session_eq api_start_def constructed_def)
  from restart_settles_until_reinitialization [OF c] r q
  have 1: "field ''status'' (fst (api_restart (Inr ()) (state_after [Event Ready] boot)))
       = Some (JString ''success'')"
    and 2: "field ''isReady''
        (fst (api_status (state_after
           ([Event Ready] @ Req_restart (Inr ()) #
              [Req_status, Event (Disconnected ''NAVIGATION''), Req_logout (Inr ()) (Inr ()),
               Req_qr])
           boot)))
       = Some (JBool False)"
    and 3: "field ''hasQR''
        (fst (api_status (state_after
           ([Event Ready] @ Req_restart (Inr ()) #
              [Req_status, Event (Disconnected ''NAVIGATION''), Req_logout (Inr ()) (Inr ()),
               Req_qr])
           boot)))
       = Some (JBool False)"
    by blast+
  from restart_settles_until_reinitialization [OF v]
  have 4: "field ''isInitializing''
        (fst (api_status (state_after
           ([Event Ready] @ Req_restart (Inr ()) #
              [Event Ready, Event (Qr ''2@abc'' (Inr ())), Req_start])
           boot)))
       = Some (JBool False)"
    and 5: "field ''hasClient''
        (fst (api_status (state_after
           ([Event Ready] @ Req_restart (Inr ()) #
              [Event Ready, Event (Qr ''2@abc'' (Inr ())), Req_start])
           boot)))
       = Some (JBool False)"
    by blast+
  show ?thesis using w r q c v 1 2 3 4 5 by blast
qed

subsection \<open>A pending QR artifact and the initializing flag\<close>



end
